theory Spec2Isabelle
  imports Main
begin

section \<open>Strings and JavaScript values\<close>

text \<open>
  Strings are \<open>char list\<close>, and a character is a code unit below 256: the strings of the
  model are the JavaScript strings of Latin-1 characters. On these \<open>toLowerCase\<close> folds
  \<open>A\<close> to \<open>Z\<close> and the capital letters from U+00C0 to U+00DE (U+00D7 is the
  multiplication sign), \<open>trim\<close> removes the white space at both ends (tab, line feed,
  vertical tab, form feed, carriage return, space and the no-break space U+00A0), and
  \<open>indexOf\<close> is \<open>String.prototype.indexOf\<close> (the first position of the pattern, or
  \<open>-1\<close>).
\<close>

definition lower_char :: "char \<Rightarrow> char" where
  "lower_char c =
     (let n = (of_char c :: nat) in
      if (65 \<le> n \<and> n \<le> 90) \<or> (192 \<le> n \<and> n \<le> 222 \<and> n \<noteq> 215) then char_of (n + 32)
      else c)"

definition toLowerCase :: "string \<Rightarrow> string" where
  "toLowerCase s = map lower_char s"

definition is_space :: "char \<Rightarrow> bool" where
  "is_space c = ((of_char c :: nat) \<in> {9, 10, 11, 12, 13, 32, 160})"

definition trim :: "string \<Rightarrow> string" where
  "trim s = rev (dropWhile is_space (rev (dropWhile is_space s)))"

fun starts_with :: "string \<Rightarrow> string \<Rightarrow> bool" where
  "starts_with s [] = True"
| "starts_with [] (p # ps) = False"
| "starts_with (c # cs) (p # ps) = (c = p \<and> starts_with cs ps)"

fun indexOf_from :: "nat \<Rightarrow> string \<Rightarrow> string \<Rightarrow> int" where
  "indexOf_from i [] pat = (if pat = [] then int i else - 1)"
| "indexOf_from i (c # cs) pat =
     (if starts_with (c # cs) pat then int i else indexOf_from (Suc i) cs pat)"

definition indexOf :: "string \<Rightarrow> string \<Rightarrow> int" where
  "indexOf s pat = indexOf_from 0 s pat"

text \<open>
  The values an option can hold. \<open>truthy\<close> is JavaScript's \<open>ToBoolean\<close>.
\<close>

datatype jsval =
    JUndefined
  | JNull
  | JBool bool
  | JNumber int
  | JString string
  | JObject "(string \<times> jsval) list"

fun truthy :: "jsval \<Rightarrow> bool" where
  "truthy JUndefined = False"
| "truthy JNull = False"
| "truthy (JBool b) = b"
| "truthy (JNumber n) = (n \<noteq> 0)"
| "truthy (JString s) = (s \<noteq> [])"
| "truthy (JObject kvs) = True"

text \<open>
  \<open>v[k]\<close> for a truthy \<open>v\<close>: an object gives its own entry; a property found on a
  prototype (of an object, a string, a number or a boolean) is a function, a number or a
  one-character string, never a boolean, so it is read as \<open>JUndefined\<close> here, where only
  the comparison \<open>=== true\<close> looks at the result.
\<close>

fun get_prop :: "jsval \<Rightarrow> string \<Rightarrow> jsval" where
  "get_prop (JObject kvs) k = (case map_of kvs k of Some v \<Rightarrow> v | None \<Rightarrow> JUndefined)"
| "get_prop v k = JUndefined"

text \<open>A property key made from \<open>process.env.NODE_ENV\<close>: \<open>undefined\<close> becomes the key \<open>"undefined"\<close>.\<close>

fun env_key :: "string option \<Rightarrow> string" where
  "env_key None = ''undefined''"
| "env_key (Some e) = e"

section \<open>The environment overrides (lines 71-85)\<close>

fun split_comma :: "string \<Rightarrow> string list" where
  "split_comma [] = [[]]"
| "split_comma (c # cs) =
     (if c = CHR '','' then [] # split_comma cs
      else (case split_comma cs of [] \<Rightarrow> [[c]] | w # ws \<Rightarrow> (c # w) # ws))"

text \<open>
  \<open>normalizeEnv\<close>: the source splits on \<open>/\s*,\s*/\<close>, lower-cases and trims every piece,
  and drops the empty ones. The white space that the regular expression eats around a
  comma is white space that \<open>trim\<close> removes from the piece, so the split is on the comma.
\<close>

definition normalizeEnv :: "string option \<Rightarrow> string list" where
  "normalizeEnv input =
     (case input of
        None \<Rightarrow> []
      | Some s \<Rightarrow>
          if s = [] then []
          else filter (\<lambda>id. id \<noteq> []) (map (\<lambda>context. trim (toLowerCase context)) (split_comma s)))"

record process_env =
  NODE_ENV :: "string option"
  TRACE_CONTEXT :: "string option"
  TRACE_FILE :: "string option"
  TRACE_LEVEL :: "string option"

text \<open>The three lists a plugin instance computes once, when it is created.\<close>

record plugin =
  PRESERVE_CONTEXTS :: "string list"
  PRESERVE_FILES :: "string list"
  PRESERVE_LEVELS :: "string list"

definition make_plugin :: "process_env \<Rightarrow> plugin" where
  "make_plugin env =
     \<lparr> PRESERVE_CONTEXTS = normalizeEnv (TRACE_CONTEXT env),
       PRESERVE_FILES = normalizeEnv (TRACE_FILE env),
       PRESERVE_LEVELS = normalizeEnv (TRACE_LEVEL env) \<rparr>"

section \<open>Errors and metadata\<close>

text \<open>
  \<open>TypeError\<close> is the error for a call, a property read or a property write on a value
  that does not allow it, and for a value that is not the node a builder expects.
  \<open>SyntaxError\<close> is the error of the parser. \<open>CodeFrameError line msg\<close> is what
  \<open>path.buildCodeFrameError(msg)\<close> builds for the labeled statement that starts at \<open>line\<close>.
\<close>

datatype error = TypeError | SyntaxError | CodeFrameError nat string

text \<open>
  The record of lines 51-59 and 257-265. \<open>hasStripOverride\<close> also reads a property
  \<open>context\<close>; it is \<open>None\<close> when the object has no such property.
\<close>

record metadata =
  indent :: nat
  parentPath :: "string list"
  hasStartMessage :: bool
  isStartMessage :: bool
  filename :: string
  filepath :: string
  line :: nat
  "context" :: "string option"

section \<open>The strip decision (lines 272-310)\<close>

definition contexts_override :: "plugin \<Rightarrow> metadata \<Rightarrow> error + bool" where
  "contexts_override pl md =
     (if PRESERVE_CONTEXTS pl = [] then Inr False
      else (case context md of
              None \<Rightarrow> Inl TypeError
            | Some c \<Rightarrow>
                Inr (list_ex (\<lambda>ctx. indexOf (toLowerCase c) ctx \<noteq> - 1) (PRESERVE_CONTEXTS pl))))"

definition files_override :: "plugin \<Rightarrow> metadata \<Rightarrow> bool" where
  "files_override pl md =
     (PRESERVE_FILES pl \<noteq> [] \<and>
      list_ex (\<lambda>f. indexOf (toLowerCase (filename md)) f \<noteq> - 1) (PRESERVE_FILES pl))"

definition levels_override :: "plugin \<Rightarrow> string \<Rightarrow> bool" where
  "levels_override pl name =
     (PRESERVE_LEVELS pl \<noteq> [] \<and> list_ex (\<lambda>level. level = toLowerCase name) (PRESERVE_LEVELS pl))"

definition hasStripOverride :: "plugin \<Rightarrow> string \<Rightarrow> metadata \<Rightarrow> error + bool" where
  "hasStripOverride pl name md =
     (case contexts_override pl md of
        Inl e \<Rightarrow> Inl e
      | Inr True \<Rightarrow> Inr True
      | Inr False \<Rightarrow>
          if files_override pl md then Inr True
          else if levels_override pl name then Inr True
          else Inr False)"

definition strip_matches :: "jsval \<Rightarrow> string option \<Rightarrow> bool" where
  "strip_matches strip env =
     (strip = JBool True \<or>
      (case strip of JString s \<Rightarrow> env = Some s | _ \<Rightarrow> False) \<or>
      get_prop strip (env_key env) = JBool True)"

definition shouldStrip ::
  "plugin \<Rightarrow> string option \<Rightarrow> string \<Rightarrow> metadata \<Rightarrow> jsval \<Rightarrow> error + bool" where
  "shouldStrip pl env name md strip =
     (if \<not> truthy strip then Inr False
      else if strip_matches strip env then
        (case hasStripOverride pl name md of Inl e \<Rightarrow> Inl e | Inr b \<Rightarrow> Inr (\<not> b))
      else Inr False)"

section \<open>Syntax trees\<close>

text \<open>
  The nodes the plugin looks at or builds, with Babel's type names. An object property is
  a pair of key and value. \<open>FunctionExpression\<close> stands for every node of Babel's alias
  \<open>Function\<close> in an expression (function and arrow expressions, object methods); the
  rewriter never looks inside one, so the body is left out. \<open>OtherExpression\<close> is any other
  kind of expression, with its type name and its child expressions in traversal order.
\<close>

datatype expr =
    Identifier string
  | StringLiteral string
  | NumericLiteral nat
  | BooleanLiteral bool
  | ArrayExpression "expr list"
  | ObjectExpression "(expr \<times> expr) list"
  | CallExpression expr "expr list"
  | SequenceExpression "expr list"
  | AssignmentExpression expr expr
  | UpdateExpression expr
  | YieldExpression "expr option"
  | FunctionExpression "string option"
  | OtherExpression string "expr list"

datatype loc = Loc (start_line: nat) (start_column: nat)

text \<open>
  The flag of an \<open>ExpressionStatement\<close> is the marker \<open>$handled\<close>, which the plugin sets
  on the statements it builds and on nothing else. \<open>FunctionDeclaration\<close> has the name,
  the line and the body statements of the function. \<open>OtherStatement\<close> is any other kind of
  statement (\<open>if\<close>, \<open>while\<close>, \<open>for\<close>, \<open>throw\<close>, ...), with its type name, its child
  expressions and, after them in the traversal, its child statements.
\<close>

datatype stmt =
    ExpressionStatement bool expr
  | VariableDeclaration "(string \<times> expr option) list"
  | ReturnStatement "expr option"
  | BlockStatement "stmt list"
  | LabeledStatement loc string stmt
  | FunctionDeclaration "string option" nat "stmt list"
  | OtherStatement string "expr list" "stmt list"

fun is_handled :: "stmt \<Rightarrow> bool" where
  "is_handled (ExpressionStatement h e) = h"
| "is_handled s = False"

text \<open>\<open>node.loc.start.line\<close>; only labeled statements carry a position here.\<close>

fun node_line :: "stmt \<Rightarrow> nat" where
  "node_line (LabeledStatement l name body) = start_line l"
| "node_line s = 0"

section \<open>Templates (lines 90-96 and the plugin parameter \<open>template\<close>)\<close>

text \<open>
  What the function returned by \<open>template(source)\<close> is applied to: a table of nodes by
  name, or, in the closure of line 117, a string.
\<close>

datatype table = NodeTable "string \<rightharpoonup> expr" | StringTable string

text \<open>
  \<open>+s === 0\<close> for a string \<open>s\<close> of identifier characters: the empty string, zeros, zeros
  with an exponent, and zeros after a hexadecimal, binary or octal prefix.
\<close>

definition all_zeros :: "string \<Rightarrow> bool" where
  "all_zeros cs = (cs \<noteq> [] \<and> list_all (\<lambda>c. c = CHR ''0'') cs)"

definition all_digits :: "string \<Rightarrow> bool" where
  "all_digits cs = (cs \<noteq> [] \<and> list_all (\<lambda>c. 48 \<le> (of_char c :: nat) \<and> (of_char c :: nat) \<le> 57) cs)"

definition is_exponent_mark :: "char \<Rightarrow> bool" where
  "is_exponent_mark c = (c = CHR ''e'' \<or> c = CHR ''E'')"

definition is_radix_mark :: "char \<Rightarrow> bool" where
  "is_radix_mark c =
     (c = CHR ''x'' \<or> c = CHR ''X'' \<or> c = CHR ''b'' \<or> c = CHR ''B'' \<or> c = CHR ''o'' \<or> c = CHR ''O'')"

definition number_is_zero :: "string \<Rightarrow> bool" where
  "number_is_zero s =
     (s = [] \<or> all_zeros s \<or>
      (case dropWhile (\<lambda>c. \<not> is_exponent_mark c) s of
         [] \<Rightarrow> False
       | m # digits \<Rightarrow> all_zeros (takeWhile (\<lambda>c. \<not> is_exponent_mark c) s) \<and> all_digits digits) \<or>
      (case s of
         z # m # digits \<Rightarrow> z = CHR ''0'' \<and> is_radix_mark m \<and> all_zeros digits
       | _ \<Rightarrow> False))"

text \<open>A name \<open>$i\<close> that stands for the first argument of the call, which is the table.\<close>

definition positional_zero :: "string \<Rightarrow> bool" where
  "positional_zero name =
     (case name of [] \<Rightarrow> False | c # rest \<Rightarrow> c = CHR ''$'' \<and> number_is_zero rest)"

text \<open>
  What the template does with an identifier of its tree. When the table has an own
  property of that name, its value is put in place of the identifier: a node of a table
  of nodes; of a string, the property \<open>length\<close>, a number (the indices of a string are no
  identifier names). Otherwise, when the name is \<open>$i\<close>, the \<open>i\<close>-th argument of the call
  is put in, and the only argument is the table itself. A value that is falsy is not put
  in; a value that is no node makes the expansion throw.
\<close>

datatype slot = Keep | Put expr | NotANode

fun slot_of :: "table \<Rightarrow> string \<Rightarrow> slot" where
  "slot_of (NodeTable m) n =
     (case m n of
        Some r \<Rightarrow> Put r
      | None \<Rightarrow> if positional_zero n then NotANode else Keep)"
| "slot_of (StringTable s) n =
     (if (n = ''length'' \<or> positional_zero n) \<and> s \<noteq> [] then NotANode else Keep)"

text \<open>The tree after the replacement; a node put in is not searched again.\<close>

fun substitute :: "table \<Rightarrow> expr \<Rightarrow> expr" where
  "substitute ids (Identifier n) = (case slot_of ids n of Put r \<Rightarrow> r | _ \<Rightarrow> Identifier n)"
| "substitute ids (StringLiteral s) = StringLiteral s"
| "substitute ids (NumericLiteral n) = NumericLiteral n"
| "substitute ids (BooleanLiteral b) = BooleanLiteral b"
| "substitute ids (ArrayExpression es) = ArrayExpression (map (substitute ids) es)"
| "substitute ids (ObjectExpression ps) =
     ObjectExpression (map (\<lambda>(k, v). (substitute ids k, substitute ids v)) ps)"
| "substitute ids (CallExpression f args) =
     CallExpression (substitute ids f) (map (substitute ids) args)"
| "substitute ids (SequenceExpression es) = SequenceExpression (map (substitute ids) es)"
| "substitute ids (AssignmentExpression l r) =
     AssignmentExpression (substitute ids l) (substitute ids r)"
| "substitute ids (UpdateExpression e) = UpdateExpression (substitute ids e)"
| "substitute ids (YieldExpression eo) = YieldExpression (map_option (substitute ids) eo)"
| "substitute ids (FunctionExpression name) = FunctionExpression name"
| "substitute ids (OtherExpression t es) = OtherExpression t (map (substitute ids) es)"

text \<open>Whether some identifier of the tree makes the expansion throw.\<close>

fun template_throws :: "table \<Rightarrow> expr \<Rightarrow> bool" where
  "template_throws ids (Identifier n) = (slot_of ids n = NotANode)"
| "template_throws ids (StringLiteral s) = False"
| "template_throws ids (NumericLiteral n) = False"
| "template_throws ids (BooleanLiteral b) = False"
| "template_throws ids (ArrayExpression es) = list_ex (template_throws ids) es"
| "template_throws ids (ObjectExpression ps) =
     list_ex (\<lambda>(k, v). template_throws ids k \<or> template_throws ids v) ps"
| "template_throws ids (CallExpression f args) =
     (template_throws ids f \<or> list_ex (template_throws ids) args)"
| "template_throws ids (SequenceExpression es) = list_ex (template_throws ids) es"
| "template_throws ids (AssignmentExpression l r) =
     (template_throws ids l \<or> template_throws ids r)"
| "template_throws ids (UpdateExpression e) = template_throws ids e"
| "template_throws ids (YieldExpression eo) =
     (case eo of None \<Rightarrow> False | Some e \<Rightarrow> template_throws ids e)"
| "template_throws ids (FunctionExpression name) = False"
| "template_throws ids (OtherExpression t es) = list_ex (template_throws ids) es"

text \<open>
  \<open>expression(input)(ids)\<close> as far as \<open>t.expressionStatement\<close> of line 352 accepts its
  result, with the parser of the host as \<open>parse\<close>, which returns the statements of the
  program or \<open>None\<close> for a syntax error. A source of one expression statement gives the
  expression after the replacement. For any other source the node returned is a
  statement, a list of statements or nothing, which the builder rejects.
\<close>

definition expression :: "(string \<Rightarrow> stmt list option) \<Rightarrow> string \<Rightarrow> table \<Rightarrow> error + expr" where
  "expression parse input ids =
     (case parse input of
        None \<Rightarrow> Inl SyntaxError
      | Some [ExpressionStatement h e] \<Rightarrow>
          if template_throws ids e then Inl TypeError else Inr (substitute ids e)
      | Some _ \<Rightarrow> Inl TypeError)"

section \<open>The built-in synthesizer (lines 125-185)\<close>

definition addIdentifiers :: "(string \<times> expr) list \<Rightarrow> (string \<rightharpoonup> expr)" where
  "addIdentifiers nodes =
     map_of nodes ++ map_of (map (\<lambda>(key, node). (key @ ''Key'', Identifier key)) nodes)"

text \<open>
  The template literal of lines 156-166: the text of the log function is spliced into
  the source, which is parsed afterwards.
\<close>

definition newline :: string where
  "newline = [CHR 0x0A]"

definition nrserLog_source :: "string \<Rightarrow> string" where
  "nrserLog_source logFunction =
     newline @ ''      '' @ logFunction @ ''({'' @ newline @
     ''        valuesKey: values,'' @ newline @
     ''        levelKey: level,'' @ newline @
     ''        filenameKey: filename,'' @ newline @
     ''        filepathKey: filepath,'' @ newline @
     ''        contentKey: content,'' @ newline @
     ''        lineKey: line,'' @ newline @
     ''        parentPathKey: parentPath,'' @ newline @
     ''      })'' @ newline @ ''    ''"

definition content_entries :: "expr \<Rightarrow> expr list" where
  "content_entries content =
     (case content of SequenceExpression es \<Rightarrow> es | _ \<Rightarrow> [content])"

definition nrserLog ::
  "(string \<Rightarrow> stmt list option) \<Rightarrow> string \<Rightarrow> expr \<Rightarrow> metadata \<Rightarrow> bool \<Rightarrow> string \<Rightarrow> error + expr" where
  "nrserLog parse logFunction content md values level =
     expression parse (nrserLog_source logFunction)
       (NodeTable
          (addIdentifiers
             [(''values'', BooleanLiteral values),
              (''level'', StringLiteral level),
              (''filename'', StringLiteral (filename md)),
              (''filepath'', StringLiteral (filepath md)),
              (''content'', ArrayExpression (content_entries content)),
              (''line'', NumericLiteral (line md)),
              (''parentPath'', ArrayExpression (map StringLiteral (parentPath md)))]))"

section \<open>Options and the alias table (lines 101-123)\<close>

text \<open>
  What an entry of the alias table can be: the closure \<open>makeNrserLog({values, level})\<close>;
  a string given by the user; the closure \<open>(message) => expr(message)\<close> that
  \<open>normalizeOpts\<close> puts in place of a non-empty string, with the source it compiled; and
  what a lookup finds on \<open>Object.prototype\<close> when the table has no entry of its own.
\<close>

datatype alias_entry =
    NrserLog bool string
  | Source string
  | Compiled string
  | Inherited string

record opts =
  aliases :: "(string \<times> alias_entry) list option"
  strip :: jsval
  logFunction :: "string option"
  normalized :: bool

definition makeNrserLog :: "bool \<Rightarrow> string \<Rightarrow> alias_entry" where
  "makeNrserLog values level = NrserLog values level"

definition default_aliases :: "(string \<times> alias_entry) list" where
  "default_aliases =
     concat (map (\<lambda>level.
        [(level, makeNrserLog True level),
         (level @ ''Values'', makeNrserLog True level),
         (level @ ''Refs'', makeNrserLog False level)])
       [''error'', ''warn'', ''info'', ''debug'', ''trace''])"

fun compile_entry :: "string \<times> alias_entry \<Rightarrow> string \<times> alias_entry" where
  "compile_entry (key, Source src) = (key, if src \<noteq> [] then Compiled src else Source src)"
| "compile_entry (key, a) = (key, a)"

fun compiled_source :: "string \<times> alias_entry \<Rightarrow> string list" where
  "compiled_source (key, Source src) = (if src \<noteq> [] then [src] else [])"
| "compiled_source (key, a) = []"

text \<open>
  \<open>normalizeOpts\<close> returns the options as it leaves them and the sources it handed to
  \<open>template\<close>, in order.
\<close>

definition normalizeOpts :: "opts \<Rightarrow> opts \<times> string list" where
  "normalizeOpts os =
     (if normalized os then (os, [])
      else (case aliases os of
              None \<Rightarrow> (os\<lparr>aliases := Some default_aliases, normalized := True\<rparr>, [])
            | Some al \<Rightarrow>
                (os\<lparr>aliases := Some (map compile_entry al), normalized := True\<rparr>,
                 concat (map compiled_source al))))"

definition object_prototype_names :: "string list" where
  "object_prototype_names =
     [''constructor'', ''toString'', ''toLocaleString'', ''valueOf'', ''hasOwnProperty'',
      ''isPrototypeOf'', ''propertyIsEnumerable'', ''__proto__'', ''__defineGetter__'',
      ''__defineSetter__'', ''__lookupGetter__'', ''__lookupSetter__'']"

text \<open>\<open>opts.aliases[name]\<close>: the table's own entry, or else what the prototype has.\<close>

definition alias_lookup :: "(string \<times> alias_entry) list \<Rightarrow> string \<Rightarrow> alias_entry option" where
  "alias_lookup al name =
     (case map_of al name of
        Some a \<Rightarrow> Some a
      | None \<Rightarrow> if name \<in> set object_prototype_names then Some (Inherited name) else None)"

fun alias_truthy :: "alias_entry option \<Rightarrow> bool" where
  "alias_truthy None = False"
| "alias_truthy (Some (Source src)) = (src \<noteq> [])"
| "alias_truthy (Some a) = True"

text \<open>
  \<open>opts.aliases[name](logFunction, content, metadata)\<close> inside \<open>t.expressionStatement\<close>
  (lines 352-354). The compiled closure has one parameter, so it passes on the first
  argument alone, the name of the log function, as the table of its template. A string is
  not callable, and a member of \<open>Object.prototype\<close> returns no node.
\<close>

fun call_alias ::
  "(string \<Rightarrow> stmt list option) \<Rightarrow> alias_entry option \<Rightarrow> string \<Rightarrow> expr \<Rightarrow> metadata \<Rightarrow>
     error + expr" where
  "call_alias parse (Some (NrserLog values level)) logFn content md =
     nrserLog parse logFn content md values level"
| "call_alias parse (Some (Compiled src)) logFn content md =
     expression parse src (StringTable logFn)"
| "call_alias parse a logFn content md = Inl TypeError"

section \<open>Paths and the metadata collector (lines 191-266)\<close>

text \<open>
  What \<open>collectMetadata\<close> reads of an ancestor: the key and the body statements of a class
  method; the name and the line of a class declaration; the name, the line and the body
  statements of any other function; and the kind of everything else.
\<close>

datatype ancestor =
    AClassMethod expr "stmt list"
  | AClassDeclaration "string option" nat
  | AFunction "string option" nat "stmt list"
  | AProgram
  | AClassBody
  | ABlockStatement
  | AOther string

text \<open>
  A path: its node, \<open>getAncestry().slice(1)\<close> (the ancestors, nearest first) and
  \<open>hub.file.opts.filename\<close>.
\<close>

record node_path =
  node :: stmt
  ancestors :: "ancestor list"
  hub_filename :: string

text \<open>The host: \<open>process.cwd()\<close>, \<open>path.resolve\<close> and the parser behind \<open>template\<close>.\<close>

record host =
  cwd :: string
  resolve :: "string \<Rightarrow> string \<Rightarrow> string"
  parse_template :: "string \<Rightarrow> stmt list option"

definition digit_char :: "nat \<Rightarrow> char" where
  "digit_char d = char_of (48 + d)"

function string_of_nat :: "nat \<Rightarrow> string" where
  "string_of_nat n =
     (if n < 10 then [digit_char n] else string_of_nat (n div 10) @ [digit_char (n mod 10)])"
  by pat_completeness auto
termination
  by (relation "measure (\<lambda>n. n)") auto

declare string_of_nat.simps [simp del]

definition keep_parent :: "ancestor option \<Rightarrow> ancestor \<Rightarrow> ancestor option" where
  "keep_parent parent item = (case parent of None \<Rightarrow> Some item | Some q \<Rightarrow> Some q)"

text \<open>One step of the \<open>reduce\<close> of lines 205-233; \<open>unshift\<close> puts the name in front.\<close>

fun ancestry_step ::
  "string list \<times> ancestor option \<times> nat \<Rightarrow> ancestor \<Rightarrow> string list \<times> ancestor option \<times> nat" where
  "ancestry_step (parts, parent, ind) (AClassMethod key body) =
     ((case key of Identifier n \<Rightarrow> n | _ \<Rightarrow> ''[computed method]'') # parts,
      keep_parent parent (AClassMethod key body), ind)"
| "ancestry_step (parts, parent, ind) (AClassDeclaration name ln) =
     ((case name of Some n \<Rightarrow> n
       | None \<Rightarrow> ''[anonymous class@'' @ string_of_nat ln @ '']'') # parts,
      keep_parent parent (AClassDeclaration name ln), ind)"
| "ancestry_step (parts, parent, ind) (AFunction name ln body) =
     ((case name of
         Some n \<Rightarrow> if n \<noteq> [] then n else ''[anonymous@'' @ string_of_nat ln @ '']''
       | None \<Rightarrow> ''[anonymous@'' @ string_of_nat ln @ '']'') # parts,
      keep_parent parent (AFunction name ln body), ind)"
| "ancestry_step (parts, parent, ind) AProgram = (parts, keep_parent parent AProgram, ind)"
| "ancestry_step (parts, parent, ind) AClassBody = (parts, parent, ind)"
| "ancestry_step (parts, parent, ind) ABlockStatement = (parts, parent, ind)"
| "ancestry_step (parts, parent, ind) (AOther t) =
     (parts, parent, if parent = None then Suc ind else ind)"

text \<open>
  \<open>parent.get('body').get('body')\<close>. The members of a class body are methods and
  properties, never marked and never labeled statements, so the loop of lines 238-254
  leaves both flags false on them as it does on an empty list.
\<close>

fun parent_body :: "ancestor \<Rightarrow> stmt list" where
  "parent_body (AClassMethod key body) = body"
| "parent_body (AFunction name ln body) = body"
| "parent_body a = []"

text \<open>
  The loop of lines 238-254, giving \<open>(hasStartMessage, isStartMessage)\<close>. Two nodes are
  the same node when they are equal: a labeled statement carries its source position.
\<close>

fun scan_start :: "(string \<times> alias_entry) list \<Rightarrow> stmt \<Rightarrow> stmt list \<Rightarrow> bool \<times> bool" where
  "scan_start al self [] = (False, False)"
| "scan_start al self (child # rest) =
     (if is_handled child then (True, False)
      else (case child of
              LabeledStatement l name body \<Rightarrow>
                if alias_truthy (alias_lookup al name) then (True, child = self)
                else scan_start al self rest
            | _ \<Rightarrow> (False, False)))"

definition collectMetadata ::
  "host \<Rightarrow> node_path \<Rightarrow> (string \<times> alias_entry) list \<Rightarrow> metadata" where
  "collectMetadata h p al =
     (case foldl ancestry_step ([], None, 0) (ancestors p) of
        (parts, parent, ind) \<Rightarrow>
          (case (case parent of
                   None \<Rightarrow> (False, False)
                 | Some q \<Rightarrow> if q = AProgram then (False, False)
                             else scan_start al (node p) (parent_body q)) of
             (hasStart, isStart) \<Rightarrow>
               \<lparr> indent = ind,
                 parentPath = parts,
                 hasStartMessage = hasStart,
                 isStartMessage = isStart,
                 filename = hub_filename p,
                 filepath = resolve h (cwd h) (hub_filename p),
                 line = node_line (node p),
                 context = None \<rparr>))"

section \<open>The rewriter (lines 314-367)\<close>

text \<open>
  Whether the traversal of an expression meets an assignment, an update, a yield or a
  function (the kinds of line 335 that an expression can hold).
\<close>

fun has_side_effect :: "expr \<Rightarrow> bool" where
  "has_side_effect (Identifier n) = False"
| "has_side_effect (StringLiteral s) = False"
| "has_side_effect (NumericLiteral n) = False"
| "has_side_effect (BooleanLiteral b) = False"
| "has_side_effect (ArrayExpression es) = list_ex has_side_effect es"
| "has_side_effect (ObjectExpression ps) =
     list_ex (\<lambda>(k, v). has_side_effect k \<or> has_side_effect v) ps"
| "has_side_effect (CallExpression f args) = (has_side_effect f \<or> list_ex has_side_effect args)"
| "has_side_effect (SequenceExpression es) = list_ex has_side_effect es"
| "has_side_effect (AssignmentExpression l r) = True"
| "has_side_effect (UpdateExpression e) = True"
| "has_side_effect (YieldExpression eo) = True"
| "has_side_effect (FunctionExpression name) = True"
| "has_side_effect (OtherExpression t es) = list_ex has_side_effect es"

text \<open>
  \<open>path.traverse\<close> of lines 334-358 on one node below the label, in the order of the
  traversal: \<open>err\<close> is the error of line 336, \<open>synth\<close> the call of lines 352-354. A
  statement put in place is visited again, where the marker stops the rewriting, and then
  searched like any other node.
\<close>

fun traverse_stmt :: "(expr \<Rightarrow> error + expr) \<Rightarrow> error \<Rightarrow> stmt \<Rightarrow> error + stmt"
  and traverse_stmts :: "(expr \<Rightarrow> error + expr) \<Rightarrow> error \<Rightarrow> stmt list \<Rightarrow> error + stmt list" where
  "traverse_stmt synth err (ExpressionStatement h e) =
     (if h then (if has_side_effect e then Inl err else Inr (ExpressionStatement h e))
      else (case synth e of
              Inl te \<Rightarrow> Inl te
            | Inr r \<Rightarrow> if has_side_effect r then Inl err else Inr (ExpressionStatement True r)))"
| "traverse_stmt synth err (VariableDeclaration ds) = Inl err"
| "traverse_stmt synth err (ReturnStatement eo) = Inl err"
| "traverse_stmt synth err (FunctionDeclaration name ln body) = Inl err"
| "traverse_stmt synth err (BlockStatement ss) =
     (case traverse_stmts synth err ss of Inl e \<Rightarrow> Inl e | Inr ss' \<Rightarrow> Inr (BlockStatement ss'))"
| "traverse_stmt synth err (LabeledStatement l name body) =
     (case traverse_stmt synth err body of
        Inl e \<Rightarrow> Inl e
      | Inr body' \<Rightarrow> Inr (LabeledStatement l name body'))"
| "traverse_stmt synth err (OtherStatement t es ss) =
     (if list_ex has_side_effect es then Inl err
      else (case traverse_stmts synth err ss of
              Inl e \<Rightarrow> Inl e
            | Inr ss' \<Rightarrow> Inr (OtherStatement t es ss')))"
| "traverse_stmts synth err [] = Inr []"
| "traverse_stmts synth err (s # ss) =
     (case traverse_stmt synth err s of
        Inl e \<Rightarrow> Inl e
      | Inr s' \<Rightarrow>
          (case traverse_stmts synth err ss of Inl e \<Rightarrow> Inl e | Inr ss' \<Rightarrow> Inr (s' # ss')))"

text \<open>What the visitor does to the labeled statement it was called on.\<close>

datatype action =
    Unchanged
  | Remove
  | ReplaceWithMultiple "stmt list"
  | ReplaceWith stmt

definition side_effect_error :: "node_path \<Rightarrow> error" where
  "side_effect_error p =
     CodeFrameError (node_line (node p)) ''Logging statements cannot have side effects.''"

definition log_function_name :: "opts \<Rightarrow> string" where
  "log_function_name os =
     (case logFunction os of None \<Rightarrow> ''METALOG'' | Some n \<Rightarrow> if n \<noteq> [] then n else ''METALOG'')"

text \<open>The call of lines 352-354 for the label \<open>name\<close>, as a function of the content.\<close>

definition synthesize ::
  "host \<Rightarrow> opts \<Rightarrow> (string \<times> alias_entry) list \<Rightarrow> string \<Rightarrow> metadata \<Rightarrow> expr \<Rightarrow> error + expr" where
  "synthesize h os al name md content =
     call_alias (parse_template h) (alias_lookup al name) (log_function_name os) content md"

text \<open>
  The \<open>LabeledStatement\<close> visitor: the options as it leaves them, and the error it throws
  or what it does to the statement. \<open>node_env\<close> is \<open>process.env.NODE_ENV\<close>.
\<close>

definition visitor ::
  "plugin \<Rightarrow> host \<Rightarrow> string option \<Rightarrow> opts \<Rightarrow> node_path \<Rightarrow> opts \<times> (error + action)" where
  "visitor pl h node_env os0 p =
     (let os = fst (normalizeOpts os0) in
      (os,
       (case node p of
          LabeledStatement l name body \<Rightarrow>
            (case aliases os of
               None \<Rightarrow> Inl TypeError
             | Some al \<Rightarrow>
                 if \<not> alias_truthy (alias_lookup al name) then Inr Unchanged
                 else
                   (let md = collectMetadata h p al in
                    (case shouldStrip pl node_env name md (strip os) of
                       Inl e \<Rightarrow> Inl e
                     | Inr True \<Rightarrow> Inr Remove
                     | Inr False \<Rightarrow>
                         (case traverse_stmt (synthesize h os al name md)
                                 (side_effect_error p) body of
                            Inl e \<Rightarrow> Inl e
                          | Inr (BlockStatement ss) \<Rightarrow> Inr (ReplaceWithMultiple ss)
                          | Inr s \<Rightarrow> Inr (ReplaceWith s)))))
        | _ \<Rightarrow> Inr Unchanged)))"

text \<open>
  The effect of an action on the list that holds the statement at index \<open>key\<close>
  (\<open>path.remove\<close>, \<open>path.replaceWithMultiple\<close>, \<open>path.replaceWith\<close>).
\<close>

fun apply_action :: "action \<Rightarrow> nat \<Rightarrow> stmt list \<Rightarrow> stmt list" where
  "apply_action Unchanged key container = container"
| "apply_action Remove key container = take key container @ drop (Suc key) container"
| "apply_action (ReplaceWithMultiple ss) key container =
     take key container @ ss @ drop (Suc key) container"
| "apply_action (ReplaceWith s) key container =
     take key container @ [s] @ drop (Suc key) container"

text \<open>The path of the statement at index \<open>key\<close> of the body of a function.\<close>

definition path_in_function ::
  "string \<Rightarrow> ancestor list \<Rightarrow> string option \<Rightarrow> nat \<Rightarrow> stmt list \<Rightarrow> nat \<Rightarrow> node_path" where
  "path_in_function file outer name ln body key =
     \<lparr> node = body ! key,
       ancestors = ABlockStatement # AFunction name ln body # outer,
       hub_filename = file \<rparr>"

section \<open>Predicates of the specification and fixed inputs\<close>

text \<open>
  A statement contains a variable declaration, a function, an assignment, an update, a
  yield or a return (the kinds of line 335), at any depth.
\<close>

fun contains_side_effect :: "stmt \<Rightarrow> bool" where
  "contains_side_effect (ExpressionStatement h e) = has_side_effect e"
| "contains_side_effect (VariableDeclaration ds) = True"
| "contains_side_effect (ReturnStatement eo) = True"
| "contains_side_effect (FunctionDeclaration name ln body) = True"
| "contains_side_effect (BlockStatement ss) = list_ex contains_side_effect ss"
| "contains_side_effect (LabeledStatement l name body) = contains_side_effect body"
| "contains_side_effect (OtherStatement t es ss) =
     (list_ex has_side_effect es \<or> list_ex contains_side_effect ss)"

text \<open>
  A statement with every expression statement that is not marked replaced by the marked
  statement of \<open>f\<close> of its expression.
\<close>

fun replace_logged :: "(expr \<Rightarrow> expr) \<Rightarrow> stmt \<Rightarrow> stmt" where
  "replace_logged f (ExpressionStatement h e) =
     (if h then ExpressionStatement h e else ExpressionStatement True (f e))"
| "replace_logged f (VariableDeclaration ds) = VariableDeclaration ds"
| "replace_logged f (ReturnStatement eo) = ReturnStatement eo"
| "replace_logged f (BlockStatement ss) = BlockStatement (map (replace_logged f) ss)"
| "replace_logged f (LabeledStatement l name body) = LabeledStatement l name (replace_logged f body)"
| "replace_logged f (FunctionDeclaration name ln body) = FunctionDeclaration name ln body"
| "replace_logged f (OtherStatement t es ss) = OtherStatement t es (map (replace_logged f) ss)"

text \<open>The identifiers that the table of \<open>nrserLog\<close> replaces in its template.\<close>

definition slot_names :: "string list" where
  "slot_names =
     [''values'', ''level'', ''filename'', ''filepath'', ''content'', ''line'', ''parentPath'',
      ''valuesKey'', ''levelKey'', ''filenameKey'', ''filepathKey'', ''contentKey'', ''lineKey'',
      ''parentPathKey'']"

text \<open>Options as Babel hands them over when the user configures nothing.\<close>

definition default_opts :: opts where
  "default_opts = \<lparr> aliases = None, strip = JUndefined, logFunction = None, normalized = False \<rparr>"

text \<open>
  The tree of the template of \<open>nrserLog\<close> when the parser reads the text of the log
  function as the expression \<open>callee\<close> in front of the argument list.
\<close>

definition nrserLog_call :: "expr \<Rightarrow> expr" where
  "nrserLog_call callee =
     CallExpression callee
       [ObjectExpression
          [(Identifier ''valuesKey'', Identifier ''values''),
           (Identifier ''levelKey'', Identifier ''level''),
           (Identifier ''filenameKey'', Identifier ''filename''),
           (Identifier ''filepathKey'', Identifier ''filepath''),
           (Identifier ''contentKey'', Identifier ''content''),
           (Identifier ''lineKey'', Identifier ''line''),
           (Identifier ''parentPathKey'', Identifier ''parentPath'')]]"

text \<open>The names of the identifiers of an expression.\<close>

fun identifier_names :: "expr \<Rightarrow> string list" where
  "identifier_names (Identifier n) = [n]"
| "identifier_names (StringLiteral s) = []"
| "identifier_names (NumericLiteral n) = []"
| "identifier_names (BooleanLiteral b) = []"
| "identifier_names (ArrayExpression es) = concat (map identifier_names es)"
| "identifier_names (ObjectExpression ps) =
     concat (map (\<lambda>(k, v). identifier_names k @ identifier_names v) ps)"
| "identifier_names (CallExpression f args) =
     identifier_names f @ concat (map identifier_names args)"
| "identifier_names (SequenceExpression es) = concat (map identifier_names es)"
| "identifier_names (AssignmentExpression l r) = identifier_names l @ identifier_names r"
| "identifier_names (UpdateExpression e) = identifier_names e"
| "identifier_names (YieldExpression eo) =
     (case eo of None \<Rightarrow> [] | Some e \<Rightarrow> identifier_names e)"
| "identifier_names (FunctionExpression name) = []"
| "identifier_names (OtherExpression t es) = concat (map identifier_names es)"

text \<open>
  The parser of the host reads the template of \<open>nrserLog\<close> for the log function text
  \<open>logFn\<close> as one call, of the expression \<open>callee\<close>, on the object of the template.
\<close>

definition reads_as_call :: "host \<Rightarrow> string \<Rightarrow> expr \<Rightarrow> bool" where
  "reads_as_call h logFn callee =
     (parse_template h (nrserLog_source logFn) =
        Some [ExpressionStatement False (nrserLog_call callee)])"

text \<open>
  A callee without side effect whose identifiers the template leaves alone: none is
  named like an entry of the table, none stands for the table.
\<close>

definition plain_callee :: "expr \<Rightarrow> bool" where
  "plain_callee callee =
     (\<not> has_side_effect callee \<and>
      list_all (\<lambda>n. n \<notin> set slot_names \<and> \<not> positional_zero n) (identifier_names callee))"

text \<open>
  A host for the examples: relative file names are joined to the working directory, and
  the parser knows the sources the examples use: two templates of the user, and the
  template of \<open>nrserLog\<close> for the log function texts \<open>METALOG\<close>, \<open>values\<close> and \<open>a, b\<close>.
\<close>

definition example_parse :: "string \<Rightarrow> stmt list option" where
  "example_parse src =
     (if src = ''console.log(content)'' then
        Some [ExpressionStatement False
          (CallExpression
             (OtherExpression ''MemberExpression'' [Identifier ''console'', Identifier ''log''])
             [Identifier ''content''])]
      else if src = ''tick()'' then
        Some [ExpressionStatement False (CallExpression (Identifier ''tick'') [])]
      else if src = nrserLog_source ''METALOG'' then
        Some [ExpressionStatement False (nrserLog_call (Identifier ''METALOG''))]
      else if src = nrserLog_source ''values'' then
        Some [ExpressionStatement False (nrserLog_call (Identifier ''values''))]
      else if src = nrserLog_source ''a, b'' then
        Some [ExpressionStatement False
          (SequenceExpression [Identifier ''a'', nrserLog_call (Identifier ''b'')])]
      else None)"

definition example_host :: host where
  "example_host =
     \<lparr> cwd = ''/home/dev/app'', resolve = (\<lambda>dir file. dir @ ''/'' @ file),
       parse_template = example_parse \<rparr>"

text \<open>Plugin instances created with none of the three variables set, and with some.\<close>

definition no_overrides :: plugin where
  "no_overrides =
     make_plugin \<lparr> NODE_ENV = Some ''production'', TRACE_CONTEXT = None, TRACE_FILE = None,
                   TRACE_LEVEL = None \<rparr>"

definition context_overrides :: plugin where
  "context_overrides =
     make_plugin \<lparr> NODE_ENV = Some ''production'', TRACE_CONTEXT = Some '':login'',
                   TRACE_FILE = None, TRACE_LEVEL = Some ''warn'' \<rparr>"

text \<open>
  Statements for the examples, and the path of a statement that is the whole body of the
  function \<open>doSomething\<close> of the file \<open>a.js\<close>.
\<close>

definition plain_label :: stmt where
  "plain_label =
     LabeledStatement (Loc 7 2) ''debug'' (ExpressionStatement False (Identifier ''x''))"

definition assignment_body :: stmt where
  "assignment_body =
     ExpressionStatement False (AssignmentExpression (Identifier ''x'') (NumericLiteral 1))"

definition assignment_label :: stmt where
  "assignment_label = LabeledStatement (Loc 7 2) ''debug'' assignment_body"

definition sequence_label :: stmt where
  "sequence_label =
     LabeledStatement (Loc 7 2) ''trace''
       (ExpressionStatement False
          (SequenceExpression [Identifier ''a'', Identifier ''b'', Identifier ''c'']))"

definition warn_label :: stmt where
  "warn_label =
     LabeledStatement (Loc 7 2) ''warn'' (ExpressionStatement False (StringLiteral ''slow''))"

definition toString_label :: stmt where
  "toString_label =
     LabeledStatement (Loc 7 2) ''toString'' (ExpressionStatement False (Identifier ''x''))"

definition block_label :: stmt where
  "block_label =
     LabeledStatement (Loc 7 2) ''info''
       (BlockStatement
          [ExpressionStatement False (Identifier ''a''),
           ExpressionStatement False (Identifier ''b'')])"

definition second_label :: stmt where
  "second_label =
     LabeledStatement (Loc 8 2) ''debug'' (ExpressionStatement False (Identifier ''y''))"

definition in_doSomething :: "stmt \<Rightarrow> node_path" where
  "in_doSomething s = path_in_function ''a.js'' [AProgram] (Some ''doSomething'') 6 [s] 0"

text \<open>Options whose alias table the user wrote, with one template source.\<close>

definition tick_opts :: opts where
  "tick_opts = default_opts\<lparr>aliases := Some [(''debug'', Source ''tick()'')]\<rparr>"

text \<open>Options that name the log function \<open>values\<close>, and give it the text \<open>a, b\<close>.\<close>

definition values_opts :: opts where
  "values_opts = default_opts\<lparr>logFunction := Some ''values''\<rparr>"

definition sequence_opts :: opts where
  "sequence_opts = default_opts\<lparr>logFunction := Some ''a, b''\<rparr>"

definition console_opts :: opts where
  "console_opts = default_opts\<lparr>aliases := Some [(''debug'', Source ''console.log(content)'')]\<rparr>"

text \<open>The number of statement nodes of a statement.\<close>

fun stmt_count :: "stmt \<Rightarrow> nat" where
  "stmt_count (ExpressionStatement h e) = 1"
| "stmt_count (VariableDeclaration ds) = 1"
| "stmt_count (ReturnStatement eo) = 1"
| "stmt_count (BlockStatement ss) = Suc (sum_list (map stmt_count ss))"
| "stmt_count (LabeledStatement l name body) = Suc (stmt_count body)"
| "stmt_count (FunctionDeclaration name ln body) = 1"
| "stmt_count (OtherStatement t es ss) = Suc (sum_list (map stmt_count ss))"

text \<open>
  The call that the built-in aliases build in the examples: the default log function,
  values captured, the file \<open>a.js\<close> under the working directory of the example host, inside
  \<open>doSomething\<close>.
\<close>

definition metalog_call :: "string \<Rightarrow> expr list \<Rightarrow> nat \<Rightarrow> expr" where
  "metalog_call level content ln =
     CallExpression (Identifier ''METALOG'')
       [ObjectExpression
          [(Identifier ''values'', BooleanLiteral True),
           (Identifier ''level'', StringLiteral level),
           (Identifier ''filename'', StringLiteral ''a.js''),
           (Identifier ''filepath'', StringLiteral ''/home/dev/app/a.js''),
           (Identifier ''content'', ArrayExpression content),
           (Identifier ''line'', NumericLiteral ln),
           (Identifier ''parentPath'', ArrayExpression [StringLiteral ''doSomething''])]]"

text \<open>
  The object literal that the built-in aliases build for \<open>debug: x;\<close> at line 7 of
  \<open>doSomething\<close> in \<open>a.js\<close>.
\<close>

definition example_object :: expr where
  "example_object =
     ObjectExpression
       [(Identifier ''values'', BooleanLiteral True),
        (Identifier ''level'', StringLiteral ''debug''),
        (Identifier ''filename'', StringLiteral ''a.js''),
        (Identifier ''filepath'', StringLiteral ''/home/dev/app/a.js''),
        (Identifier ''content'', ArrayExpression [Identifier ''x'']),
        (Identifier ''line'', NumericLiteral 7),
        (Identifier ''parentPath'', ArrayExpression [StringLiteral ''doSomething''])]"

section \<open>The alias table\<close>

lemma default_aliases_eq:
  "default_aliases =
     [(''error'', NrserLog True ''error''), (''errorValues'', NrserLog True ''error''),
      (''errorRefs'', NrserLog False ''error''),
      (''warn'', NrserLog True ''warn''), (''warnValues'', NrserLog True ''warn''),
      (''warnRefs'', NrserLog False ''warn''),
      (''info'', NrserLog True ''info''), (''infoValues'', NrserLog True ''info''),
      (''infoRefs'', NrserLog False ''info''),
      (''debug'', NrserLog True ''debug''), (''debugValues'', NrserLog True ''debug''),
      (''debugRefs'', NrserLog False ''debug''),
      (''trace'', NrserLog True ''trace''), (''traceValues'', NrserLog True ''trace''),
      (''traceRefs'', NrserLog False ''trace'')]"
  by (simp add: default_aliases_def makeNrserLog_def)

lemma normalizeOpts_default:
  "normalizeOpts default_opts =
     (default_opts\<lparr>aliases := Some default_aliases, normalized := True\<rparr>, [])"
  by (simp add: normalizeOpts_def default_opts_def)


lemma strip_normalizeOpts [simp]: "strip (fst (normalizeOpts os)) = strip os"
  by (simp add: normalizeOpts_def split: option.splits)

lemma logFunction_normalizeOpts [simp]: "logFunction (fst (normalizeOpts os)) = logFunction os"
  by (simp add: normalizeOpts_def split: option.splits)

lemma log_function_name_normalizeOpts [simp]:
  "log_function_name (fst (normalizeOpts os)) = log_function_name os"
  by (simp add: log_function_name_def)

lemma debug_default: "alias_lookup default_aliases ''debug'' = Some (NrserLog True ''debug'')"
  by (simp add: alias_lookup_def default_aliases_eq)

lemma trace_default: "alias_lookup default_aliases ''trace'' = Some (NrserLog True ''trace'')"
  by (simp add: alias_lookup_def default_aliases_eq)

text \<open>
  C8. Normalizing options that were already normalized returns them as they are and
  compiles no template; and when the options have no alias table and were not normalized
  before, the table installed has the fifteen default entries: for each of the five levels
  the bare name and the \<open>Values\<close> name with the values flag true, and the \<open>Refs\<close> name with
  the values flag false.
\<close>

theorem normalizeOpts_idempotent:
  "normalizeOpts (fst (normalizeOpts os)) = (fst (normalizeOpts os), []) \<and>
   (aliases os = None \<and> \<not> normalized os \<longrightarrow>
      aliases (fst (normalizeOpts os)) =
        Some [(''error'', NrserLog True ''error''), (''errorValues'', NrserLog True ''error''),
              (''errorRefs'', NrserLog False ''error''),
              (''warn'', NrserLog True ''warn''), (''warnValues'', NrserLog True ''warn''),
              (''warnRefs'', NrserLog False ''warn''),
              (''info'', NrserLog True ''info''), (''infoValues'', NrserLog True ''info''),
              (''infoRefs'', NrserLog False ''info''),
              (''debug'', NrserLog True ''debug''), (''debugValues'', NrserLog True ''debug''),
              (''debugRefs'', NrserLog False ''debug''),
              (''trace'', NrserLog True ''trace''), (''traceValues'', NrserLog True ''trace''),
              (''traceRefs'', NrserLog False ''trace'')])"
proof -
  have "normalized (fst (normalizeOpts os))"
    by (simp add: normalizeOpts_def split: option.splits)
  then have twice: "normalizeOpts (fst (normalizeOpts os)) = (fst (normalizeOpts os), [])"
    by (simp add: normalizeOpts_def)
  have "aliases os = None \<and> \<not> normalized os \<longrightarrow>
          aliases (fst (normalizeOpts os)) = Some default_aliases"
    by (simp add: normalizeOpts_def)
  with twice show ?thesis
    unfolding default_aliases_eq by blast
qed

theorem normalizeOpts_idempotent_witness:
  "normalizeOpts (fst (normalizeOpts default_opts)) = (fst (normalizeOpts default_opts), []) \<and>
   aliases default_opts = None \<and> \<not> normalized default_opts \<and>
   map_option (map fst) (aliases (fst (normalizeOpts default_opts))) =
     Some [''error'', ''errorValues'', ''errorRefs'', ''warn'', ''warnValues'', ''warnRefs'',
           ''info'', ''infoValues'', ''infoRefs'', ''debug'', ''debugValues'', ''debugRefs'',
           ''trace'', ''traceValues'', ''traceRefs'']"
  using normalizeOpts_idempotent [of default_opts]
  by (simp add: default_opts_def)

text \<open>
  The closure that stands for a compiled template takes its first argument only: the
  content and the metadata of the call never reach the template.
\<close>

lemma compiled_ignores_content:
  "call_alias parse (Some (Compiled src)) logFn content md =
   call_alias parse (Some (Compiled src)) logFn content' md'"
  by simp

text \<open>
  C6, at the input that shows the defect. The alias table \<open>{debug: "console.log(content)"}\<close>
  is compiled once, by the first normalization, and not again by the second. On
  \<open>debug: x;\<close> the synthesizer returns \<open>console.log(content)\<close>: the identifier \<open>content\<close>
  of the template is still there, where the claim has the logged expression \<open>x\<close> put in.
\<close>

theorem template_alias_drops_content:
  "normalizeOpts console_opts =
     (console_opts\<lparr>aliases := Some [(''debug'', Compiled ''console.log(content)'')],
                    normalized := True\<rparr>, [''console.log(content)'']) \<and>
   snd (normalizeOpts (fst (normalizeOpts console_opts))) = [] \<and>
   snd (visitor no_overrides example_host (Some ''production'') console_opts
          (in_doSomething plain_label)) =
     Inr (ReplaceWith (ExpressionStatement True
       (CallExpression
          (OtherExpression ''MemberExpression'' [Identifier ''console'', Identifier ''log''])
          [Identifier ''content''])))"
  by code_simp

text \<open>
  A label that is neither a key of the alias table nor a property name of
  \<open>Object.prototype\<close> is left as it is.
\<close>

lemma unknown_label_unchanged:
  assumes "node p = LabeledStatement l name body"
      and "aliases (fst (normalizeOpts os)) = Some al"
      and "name \<notin> set (map fst al)" and "name \<notin> set object_prototype_names"
  shows "snd (visitor pl h node_env os p) = Inr Unchanged"
proof -
  have "map_of al name = None" using assms(3) by (simp add: map_of_eq_None_iff)
  then have "alias_lookup al name = None" using assms(4) by (simp add: alias_lookup_def)
  then show ?thesis using assms(1,2) by (simp add: visitor_def Let_def)
qed

text \<open>
  C9, at the input that shows the defect. \<open>toString\<close> is not a key of the default alias
  table, yet the guard of line 322 lets the label \<open>toString: x;\<close> through: with
  \<open>strip: true\<close> the statement is removed, and without it the visitor throws, where the
  claim has the statement left unchanged.
\<close>

theorem inherited_name_passes_guard:
  "''toString'' \<notin> set (map fst default_aliases) \<and>
   aliases (fst (normalizeOpts (default_opts\<lparr>strip := JBool True\<rparr>))) = Some default_aliases \<and>
   snd (visitor no_overrides example_host (Some ''production'')
          (default_opts\<lparr>strip := JBool True\<rparr>) (in_doSomething toString_label)) = Inr Remove \<and>
   snd (visitor no_overrides example_host (Some ''production'')
          default_opts (in_doSomething toString_label)) = Inl TypeError"
  by code_simp

section \<open>The strip decision\<close>


lemma shouldStrip_no_match:
  "\<not> strip_matches sv env \<Longrightarrow> shouldStrip pl env name md sv = Inr False"
  by (simp add: shouldStrip_def)

text \<open>
  When the policy matches and the context list is empty or the metadata has a context,
  the statement is stripped unless one of the three lists grants an exception.
\<close>

lemma shouldStrip_match:
  assumes "truthy sv" and "strip_matches sv env"
      and "PRESERVE_CONTEXTS pl = [] \<or> context md \<noteq> None"
  shows "shouldStrip pl env name md sv =
           Inr (\<not> ((case context md of
                       None \<Rightarrow> False
                     | Some c \<Rightarrow> list_ex (\<lambda>ctx. indexOf (toLowerCase c) ctx \<noteq> - 1)
                                   (PRESERVE_CONTEXTS pl)) \<or>
                    list_ex (\<lambda>f. indexOf (toLowerCase (filename md)) f \<noteq> - 1) (PRESERVE_FILES pl) \<or>
                    list_ex (\<lambda>level. level = toLowerCase name) (PRESERVE_LEVELS pl)))"
  using assms
  by (cases "PRESERVE_FILES pl"; cases "PRESERVE_LEVELS pl"; cases "PRESERVE_CONTEXTS pl")
     (auto simp add: shouldStrip_def hasStripOverride_def contexts_override_def
        files_override_def levels_override_def split: option.splits sum.splits bool.splits)

lemma shouldStrip_context_missing:
  assumes "truthy sv" and "strip_matches sv env"
      and "PRESERVE_CONTEXTS pl \<noteq> []" and "context md = None"
  shows "shouldStrip pl env name md sv = Inl TypeError"
  using assms
  by (simp add: shouldStrip_def hasStripOverride_def contexts_override_def)

lemma context_collectMetadata [simp]: "context (collectMetadata h p al) = None"
  by (simp add: collectMetadata_def split: prod.splits)

text \<open>
  Whenever the context list is not empty, the override check fails on the metadata that
  the collector builds, for every path and every label.
\<close>

lemma collected_metadata_context_throws:
  "PRESERVE_CONTEXTS pl \<noteq> [] \<Longrightarrow>
     hasStripOverride pl name (collectMetadata h p al) = Inl TypeError"
  by (simp add: hasStripOverride_def contexts_override_def)

text \<open>
  C2, at the input that shows the defect. With \<open>strip: {production: true}\<close>, the
  environment \<open>production\<close>, \<open>TRACE_LEVEL=warn\<close> and \<open>TRACE_CONTEXT=:login\<close>, the decision
  for a \<open>warn\<close> label with the metadata that the collector built is a type error, where the
  claim has the statement preserved.
\<close>

theorem warn_in_production_throws:
  "PRESERVE_LEVELS context_overrides = [''warn''] \<and>
   PRESERVE_CONTEXTS context_overrides = ['':login''] \<and>
   shouldStrip context_overrides (Some ''production'') ''warn''
     (collectMetadata example_host (in_doSomething warn_label) default_aliases)
     (JObject [(''production'', JBool True)]) = Inl TypeError"
  by code_simp

text \<open>
  C5, at the input that shows the defect. With \<open>TRACE_CONTEXT=:login\<close> and \<open>strip: true\<close>,
  the override check on the metadata that the collector built for \<open>debug: x;\<close> does not
  return a boolean: it fails with a type error, and so does the strip decision.
\<close>

theorem context_override_throws:
  "PRESERVE_CONTEXTS context_overrides = ['':login''] \<and>
   hasStripOverride context_overrides ''debug''
     (collectMetadata example_host (in_doSomething plain_label) default_aliases) = Inl TypeError \<and>
   shouldStrip context_overrides (Some ''production'') ''debug''
     (collectMetadata example_host (in_doSomething plain_label) default_aliases) (JBool True)
     = Inl TypeError"
  by code_simp

section \<open>The built-in synthesizer\<close>

text \<open>The template leaves alone an expression none of whose identifiers is in the table.\<close>

lemma substitute_untouched:
  "list_all (\<lambda>n. m n = None) (identifier_names e) \<Longrightarrow> substitute (NodeTable m) e = e"
proof (induction e)
  case (ObjectExpression ps)
  have "(k, v) \<in> set ps \<Longrightarrow> substitute (NodeTable m) k = k \<and> substitute (NodeTable m) v = v" for k v
    using ObjectExpression by (fastforce simp add: list_all_iff)
  then have "map (\<lambda>(k, v). (substitute (NodeTable m) k, substitute (NodeTable m) v)) ps = ps"
    by (intro map_idI) auto
  then show ?case by simp
next
  case (YieldExpression eo)
  then show ?case by (cases eo) auto
qed (auto simp add: list_all_iff intro!: map_idI)

lemma throws_untouched:
  "list_all (\<lambda>n. \<not> positional_zero n) (identifier_names e) \<Longrightarrow> \<not> template_throws (NodeTable m) e"
proof (induction e)
  case (ObjectExpression ps)
  then show ?case by (fastforce simp add: list_all_iff list_ex_iff)
next
  case (YieldExpression eo)
  then show ?case by (cases eo) auto
qed (auto simp add: list_all_iff list_ex_iff split: option.splits)

lemma slot_table_none:
  "n \<notin> set slot_names \<Longrightarrow>
     addIdentifiers
       [(''values'', a1), (''level'', a2), (''filename'', a3), (''filepath'', a4),
        (''content'', a5), (''line'', a6), (''parentPath'', a7)] n = None"
  by (simp add: addIdentifiers_def slot_names_def map_add_def)

lemma has_side_effect_content_entries:
  "list_ex has_side_effect (content_entries c) = has_side_effect c"
  by (cases c) (simp_all add: content_entries_def)

lemma no_side_effect_strings: "\<not> list_ex has_side_effect (map StringLiteral xs)"
  by (induction xs) simp_all

lemma substitute_nrserLog_call:
  assumes "list_all (\<lambda>n. n \<notin> set slot_names) (identifier_names callee)"
  shows "substitute
           (NodeTable (addIdentifiers
              [(''values'', a1), (''level'', a2), (''filename'', a3), (''filepath'', a4),
               (''content'', a5), (''line'', a6), (''parentPath'', a7)]))
           (nrserLog_call callee) =
         CallExpression callee
           [ObjectExpression
              [(Identifier ''values'', a1), (Identifier ''level'', a2),
               (Identifier ''filename'', a3), (Identifier ''filepath'', a4),
               (Identifier ''content'', a5), (Identifier ''line'', a6),
               (Identifier ''parentPath'', a7)]]"
proof -
  let ?m = "addIdentifiers
              [(''values'', a1), (''level'', a2), (''filename'', a3), (''filepath'', a4),
               (''content'', a5), (''line'', a6), (''parentPath'', a7)]"
  have "list_all (\<lambda>n. ?m n = None) (identifier_names callee)"
    using assms by (auto simp add: list_all_iff slot_table_none)
  then have "substitute (NodeTable ?m) callee = callee"
    by (rule substitute_untouched)
  then show ?thesis
    by (simp add: nrserLog_call_def addIdentifiers_def map_add_def)
qed

lemma throws_nrserLog_call:
  "template_throws
     (NodeTable (addIdentifiers
        [(''values'', a1), (''level'', a2), (''filename'', a3), (''filepath'', a4),
         (''content'', a5), (''line'', a6), (''parentPath'', a7)]))
     (nrserLog_call callee) =
   template_throws
     (NodeTable (addIdentifiers
        [(''values'', a1), (''level'', a2), (''filename'', a3), (''filepath'', a4),
         (''content'', a5), (''line'', a6), (''parentPath'', a7)]))
     callee"
  by (simp add: nrserLog_call_def addIdentifiers_def map_add_def)

text \<open>What \<open>nrserLog\<close> returns, when it returns.\<close>

lemma nrserLog_result:
  assumes "parse (nrserLog_source logFn) = Some [ExpressionStatement mark (nrserLog_call callee)]"
      and "list_all (\<lambda>n. n \<notin> set slot_names) (identifier_names callee)"
      and "nrserLog parse logFn content md values level = Inr r"
  shows "r = CallExpression callee
           [ObjectExpression
              [(Identifier ''values'', BooleanLiteral values),
               (Identifier ''level'', StringLiteral level),
               (Identifier ''filename'', StringLiteral (filename md)),
               (Identifier ''filepath'', StringLiteral (filepath md)),
               (Identifier ''content'', ArrayExpression (content_entries content)),
               (Identifier ''line'', NumericLiteral (line md)),
               (Identifier ''parentPath'', ArrayExpression (map StringLiteral (parentPath md)))]]"
  using assms(3)
  by (simp add: nrserLog_def expression_def assms(1) substitute_nrserLog_call [OF assms(2)]
      split: if_splits)

text \<open>With a plain callee \<open>nrserLog\<close> returns, and the call holds a side effect exactly when
  the content does.\<close>

lemma nrserLog_plain:
  assumes "parse (nrserLog_source logFn) = Some [ExpressionStatement mark (nrserLog_call callee)]"
      and "plain_callee callee"
  shows "\<exists>r. nrserLog parse logFn content md values level = Inr r \<and>
             has_side_effect r = has_side_effect content"
proof -
  have names: "list_all (\<lambda>n. n \<notin> set slot_names) (identifier_names callee)"
    and zero: "list_all (\<lambda>n. \<not> positional_zero n) (identifier_names callee)"
    and pure: "\<not> has_side_effect callee"
    using assms(2) by (auto simp add: plain_callee_def list_all_iff)
  show ?thesis
    using pure
    by (simp add: nrserLog_def expression_def assms(1) substitute_nrserLog_call [OF names]
        throws_nrserLog_call throws_untouched [OF zero]
        has_side_effect_content_entries no_side_effect_strings)
qed

lemma synthesize_builtin:
  "alias_lookup al name = Some (NrserLog values level) \<Longrightarrow>
     synthesize h os al name md content =
       nrserLog (parse_template h) (log_function_name os) content md values level"
  by (simp add: synthesize_def)

section \<open>The metadata collector\<close>




section \<open>The rewriter\<close>

subsection \<open>The traversal below a label\<close>

lemma traverse_stmt_count:
  "traverse_stmt synth err s = Inr s' \<Longrightarrow> stmt_count s' = stmt_count s"
  "traverse_stmts synth err ss = Inr ss' \<Longrightarrow>
     sum_list (map stmt_count ss') = sum_list (map stmt_count ss)"
proof (induction synth err s and synth err ss arbitrary: s' and ss'
    rule: traverse_stmt_traverse_stmts.induct)
  case (1 synth err h e)
  then show ?case by (auto split: if_splits sum.splits)
next
  case (5 synth err ss)
  then show ?case by (auto split: sum.splits)
next
  case (6 synth err l name body)
  then show ?case by (auto split: sum.splits)
next
  case (7 synth err t es ss)
  then show ?case by (auto split: if_splits sum.splits)
next
  case (9 synth err s ss)
  then show ?case by (auto split: sum.splits)
qed simp_all

lemma traverse_stmts_all2:
  "traverse_stmts synth err ss = Inr ss' \<longleftrightarrow>
     list_all2 (\<lambda>s s'. traverse_stmt synth err s = Inr s') ss ss'"
proof (induction ss arbitrary: ss')
  case Nil
  show ?case by auto
next
  case (Cons s ss)
  show ?case
  proof (cases ss')
    case Nil
    then show ?thesis by (auto split: sum.splits)
  next
    case (Cons t ts)
    with Cons.IH [of ts] show ?thesis by (auto split: sum.splits)
  qed
qed

lemma traverse_block:
  "traverse_stmt synth err (BlockStatement ss) = Inr s' \<Longrightarrow>
     \<exists>ss'. s' = BlockStatement ss' \<and> traverse_stmts synth err ss = Inr ss'"
  by (auto split: sum.splits)

lemma traverse_not_block:
  "traverse_stmt synth err s = Inr s' \<Longrightarrow> \<forall>ss. s \<noteq> BlockStatement ss \<Longrightarrow> s' \<noteq> BlockStatement ss'"
  by (cases s) (auto split: sum.splits if_splits)

lemma stmt_count_member: "s \<in> set ss \<Longrightarrow> stmt_count s \<le> sum_list (map stmt_count ss)"
  by (induction ss) auto

text \<open>
  With a synthesizer that always returns a node, and one that holds a side effect only
  when the content does, the traversal throws the error of line 336 exactly on the
  statements that contain one of the six kinds.
\<close>

lemma traverse_pure:
  assumes "\<And>e. \<exists>r. synth e = Inr r \<and> has_side_effect r = has_side_effect e"
  shows "(contains_side_effect s \<longrightarrow> traverse_stmt synth err s = Inl err) \<and>
         (\<not> contains_side_effect s \<longrightarrow> (\<exists>s'. traverse_stmt synth err s = Inr s'))"
    and "(list_ex contains_side_effect ss \<longrightarrow> traverse_stmts synth err ss = Inl err) \<and>
         (\<not> list_ex contains_side_effect ss \<longrightarrow> (\<exists>ss'. traverse_stmts synth err ss = Inr ss'))"
  using assms
proof (induction synth err s and synth err ss rule: traverse_stmt_traverse_stmts.induct)
  case (1 synth err h e)
  obtain r where "synth e = Inr r" "has_side_effect r = has_side_effect e"
    using 1 by blast
  then show ?case by simp
next
  case (5 synth err ss)
  then show ?case by (auto split: sum.splits)
next
  case (6 synth err l name body)
  then show ?case by (auto split: sum.splits)
next
  case (7 synth err t es ss)
  then show ?case by (auto split: sum.splits)
next
  case (9 synth err s ss)
  then show ?case by (auto split: sum.splits)
qed simp_all

text \<open>
  What the traversal returns when every node that the synthesizer returns is \<open>f\<close> of the
  content.
\<close>

lemma traverse_replace_logged:
  assumes "\<And>e r. synth e = Inr r \<Longrightarrow> r = f e"
  shows "traverse_stmt synth err s = Inr s' \<Longrightarrow> s' = replace_logged f s"
    and "traverse_stmts synth err ss = Inr ss' \<Longrightarrow> ss' = map (replace_logged f) ss"
  using assms
proof (induction synth err s and synth err ss arbitrary: s' and ss'
    rule: traverse_stmt_traverse_stmts.induct)
  case (1 synth err h e)
  show ?case
  proof (cases h)
    case True
    with "1.prems"(1) show ?thesis by (auto split: if_splits)
  next
    case False
    with "1.prems"(1) obtain r where r: "synth e = Inr r" and s': "s' = ExpressionStatement True r"
      by (auto split: sum.splits if_splits)
    from "1.prems"(2) [OF r] s' False show ?thesis by simp
  qed
next
  case (5 synth err ss)
  then show ?case by (auto split: sum.splits)
next
  case (6 synth err l name body)
  then show ?case by (auto split: sum.splits)
next
  case (7 synth err t es ss)
  then show ?case by (auto split: if_splits sum.splits)
next
  case (9 synth err s ss)
  from "9.prems"(1) obtain t ts where t: "traverse_stmt synth err s = Inr t"
    and ts: "traverse_stmts synth err ss = Inr ts" and eq: "ss' = t # ts"
    by (auto split: sum.splits)
  have "t = replace_logged f s"
    using "9.IH"(1) t "9.prems"(2) by blast
  moreover have "ts = map (replace_logged f) ss"
    using "9.IH"(2) t ts "9.prems"(2) by blast
  ultimately show ?case using eq by simp
qed simp_all

subsection \<open>The visitor\<close>

lemma visitor_rewrites:
  assumes "node p = LabeledStatement l name body"
      and "aliases (fst (normalizeOpts os)) = Some al"
      and "alias_truthy (alias_lookup al name)"
      and "shouldStrip pl node_env name (collectMetadata h p al) (strip os) = Inr False"
  shows "snd (visitor pl h node_env os p) =
           (case traverse_stmt
                   (synthesize h (fst (normalizeOpts os)) al name (collectMetadata h p al))
                   (side_effect_error p) body of
              Inl e \<Rightarrow> Inl e
            | Inr (BlockStatement ss) \<Rightarrow> Inr (ReplaceWithMultiple ss)
            | Inr s \<Rightarrow> Inr (ReplaceWith s))"
  using assms by (simp add: visitor_def Let_def)

lemma example_not_stripped:
  "shouldStrip no_overrides (Some ''production'') name md (strip default_opts) = Inr False"
  by (simp add: shouldStrip_def default_opts_def)

lemma example_aliases: "aliases (fst (normalizeOpts default_opts)) = Some default_aliases"
  by (simp add: normalizeOpts_default)

lemma example_reads:
  "reads_as_call example_host (log_function_name default_opts) (Identifier ''METALOG'')"
  by code_simp

lemma example_names: "list_all (\<lambda>n. n \<notin> set slot_names) (identifier_names (Identifier ''METALOG''))"
  by code_simp

lemma example_node: "node (in_doSomething s) = s"
  by (simp add: in_doSomething_def path_in_function_def)

text \<open>
  C10. When the label matches an alias and the strip decision is true, the visitor removes
  the statement whatever its body is: the body is never searched, no error is thrown, and
  the statement leaves the list that held it.
\<close>

theorem strip_skips_purity_check:
  assumes "node p = LabeledStatement l name body"
      and "aliases (fst (normalizeOpts os)) = Some al"
      and "alias_truthy (alias_lookup al name)"
      and "shouldStrip pl node_env name (collectMetadata h p al) (strip os) = Inr True"
  shows "snd (visitor pl h node_env os p) = Inr Remove \<and>
         apply_action Remove (length before) (before @ node p # after) = before @ after"
  using assms by (simp add: visitor_def Let_def)

theorem strip_skips_purity_check_witness:
  "contains_side_effect assignment_label \<and>
   snd (visitor no_overrides example_host (Some ''production'')
          (default_opts\<lparr>strip := JBool True\<rparr>) (in_doSomething assignment_label)) = Inr Remove \<and>
   apply_action Remove 0 [assignment_label] = []"
proof -
  let ?os = "default_opts\<lparr>strip := JBool True\<rparr>"
  let ?p = "in_doSomething assignment_label"
  have n: "node ?p = LabeledStatement (Loc 7 2) ''debug'' assignment_body"
    by (simp add: example_node assignment_label_def)
  have a: "aliases (fst (normalizeOpts ?os)) = Some default_aliases"
    by (simp add: normalizeOpts_def default_opts_def)
  have t: "alias_truthy (alias_lookup default_aliases ''debug'')"
    by (simp add: debug_default)
  have s: "shouldStrip no_overrides (Some ''production'') ''debug''
             (collectMetadata example_host ?p default_aliases) (strip ?os) = Inr True"
    by (simp add: shouldStrip_def strip_matches_def hasStripOverride_def contexts_override_def
        files_override_def levels_override_def no_overrides_def make_plugin_def normalizeEnv_def
        default_opts_def)
  have c: "contains_side_effect assignment_label"
    by (simp add: assignment_label_def assignment_body_def)
  from strip_skips_purity_check [OF n a t s, of "[]" "[]"] c show ?thesis
    by (simp add: example_node)
qed

text \<open>
  For a built-in alias, when the parser reads the template as a call of a plain callee:
  the visitor throws the error of line 336, built for the labeled statement, exactly when
  the body contains a variable declaration, a function, an assignment, an update, a yield
  or a return, and replaces the statement otherwise.
\<close>

lemma builtin_purity:
  assumes "node p = LabeledStatement l name body"
      and "aliases (fst (normalizeOpts os)) = Some al"
      and "alias_lookup al name = Some (NrserLog values level)"
      and "shouldStrip pl node_env name (collectMetadata h p al) (strip os) = Inr False"
      and "reads_as_call h (log_function_name os) callee"
      and "plain_callee callee"
  shows "(contains_side_effect body \<longrightarrow>
            snd (visitor pl h node_env os p) =
              Inl (CodeFrameError (start_line l) ''Logging statements cannot have side effects.'')) \<and>
         (\<not> contains_side_effect body \<longrightarrow>
            (\<exists>a. snd (visitor pl h node_env os p) = Inr a \<and> a \<noteq> Unchanged \<and> a \<noteq> Remove))"
proof -
  let ?synth = "synthesize h (fst (normalizeOpts os)) al name (collectMetadata h p al)"
  have parse: "parse_template h (nrserLog_source (log_function_name os)) =
                 Some [ExpressionStatement False (nrserLog_call callee)]"
    using assms(5) by (simp add: reads_as_call_def)
  have faithful: "\<And>e. \<exists>r. ?synth e = Inr r \<and> has_side_effect r = has_side_effect e"
    using assms(3) nrserLog_plain [where parse = "parse_template h" and logFn = "log_function_name os", OF parse assms(6)] by (simp add: synthesize_builtin)
  have t: "alias_truthy (alias_lookup al name)"
    using assms(3) by simp
  have v: "snd (visitor pl h node_env os p) =
           (case traverse_stmt ?synth (side_effect_error p) body of
              Inl e \<Rightarrow> Inl e
            | Inr (BlockStatement ss) \<Rightarrow> Inr (ReplaceWithMultiple ss)
            | Inr s \<Rightarrow> Inr (ReplaceWith s))"
    using visitor_rewrites [OF assms(1,2) t assms(4)] .
  have err: "side_effect_error p =
      CodeFrameError (start_line l) ''Logging statements cannot have side effects.''"
    using assms(1) by (simp add: side_effect_error_def)
  from traverse_pure(1) [of ?synth body "side_effect_error p", OF faithful]
  show ?thesis
    unfolding v err by (auto split: stmt.splits)
qed

text \<open>
  C3, at the input that shows the defect. The body of \<open>debug: (x = 1);\<close> contains an
  assignment. Under the default aliases the visitor throws the error of line 336 for it.
  Under the alias table \<open>{debug: "tick()"}\<close> the handler of lines 338-357 replaces the
  statement by \<open>tick();\<close> before the traversal reaches the assignment, the closure of line
  117 does not put the logged expression into what it builds, and no error is thrown.
\<close>

theorem custom_alias_hides_assignment:
  "contains_side_effect assignment_body \<and>
   node (in_doSomething assignment_label) = LabeledStatement (Loc 7 2) ''debug'' assignment_body \<and>
   snd (visitor no_overrides example_host (Some ''production'') tick_opts
          (in_doSomething assignment_label)) =
     Inr (ReplaceWith (ExpressionStatement True (CallExpression (Identifier ''tick'') []))) \<and>
   \<not> (\<exists>e. snd (visitor no_overrides example_host (Some ''production'') tick_opts
                  (in_doSomething assignment_label)) = Inl e) \<and>
   snd (visitor no_overrides example_host (Some ''production'') default_opts
          (in_doSomething assignment_label)) =
     Inl (CodeFrameError 7 ''Logging statements cannot have side effects.'')"
proof -
  have v: "snd (visitor no_overrides example_host (Some ''production'') tick_opts
          (in_doSomething assignment_label)) =
     Inr (ReplaceWith (ExpressionStatement True (CallExpression (Identifier ''tick'') [])))"
    by code_simp
  have d: "snd (visitor no_overrides example_host (Some ''production'') default_opts
          (in_doSomething assignment_label)) =
     Inl (CodeFrameError 7 ''Logging statements cannot have side effects.'')"
    by code_simp
  have c: "contains_side_effect assignment_body"
    by code_simp
  have n: "node (in_doSomething assignment_label) =
             LabeledStatement (Loc 7 2) ''debug'' assignment_body"
    by (simp add: example_node assignment_label_def)
  show ?thesis unfolding v d using c n by simp
qed

text \<open>
  C1 as stated fails in three ways, all with the statement \<open>debug: x;\<close> rewritten. With
  the alias table \<open>{debug: "tick()"}\<close> and the default log function \<open>METALOG\<close> the
  replacement is \<open>tick();\<close>, which is no call of \<open>METALOG\<close> and has no argument. With the
  log function \<open>values\<close> the callee of the call is the literal \<open>true\<close>, which the template
  put in place of the identifier \<open>values\<close>. With the text \<open>a, b\<close> for the log function the
  replacement is a sequence expression, whose first entry is \<open>a\<close>.
\<close>

theorem custom_alias_replacement:
  "log_function_name tick_opts = ''METALOG'' \<and>
   snd (visitor no_overrides example_host (Some ''production'') tick_opts
          (in_doSomething plain_label)) =
     Inr (ReplaceWith (ExpressionStatement True (CallExpression (Identifier ''tick'') []))) \<and>
   \<not> (\<exists>props. snd (visitor no_overrides example_host (Some ''production'') tick_opts
                      (in_doSomething plain_label)) =
          Inr (ReplaceWith (ExpressionStatement True
            (CallExpression (Identifier (log_function_name tick_opts)) [ObjectExpression props])))) \<and>
   log_function_name values_opts = ''values'' \<and>
   snd (visitor no_overrides example_host (Some ''production'') values_opts
          (in_doSomething plain_label)) =
     Inr (ReplaceWith (ExpressionStatement True
       (CallExpression (BooleanLiteral True) [example_object]))) \<and>
   log_function_name sequence_opts = ''a, b'' \<and>
   snd (visitor no_overrides example_host (Some ''production'') sequence_opts
          (in_doSomething plain_label)) =
     Inr (ReplaceWith (ExpressionStatement True
       (SequenceExpression
          [Identifier ''a'', CallExpression (Identifier ''b'') [example_object]])))"
proof -
  have v: "snd (visitor no_overrides example_host (Some ''production'') tick_opts
          (in_doSomething plain_label)) =
     Inr (ReplaceWith (ExpressionStatement True (CallExpression (Identifier ''tick'') [])))"
    by code_simp
  have l: "log_function_name tick_opts = ''METALOG''"
    by code_simp
  have w: "log_function_name values_opts = ''values''"
    by code_simp
  have x: "snd (visitor no_overrides example_host (Some ''production'') values_opts
          (in_doSomething plain_label)) =
     Inr (ReplaceWith (ExpressionStatement True
       (CallExpression (BooleanLiteral True) [example_object])))"
    by code_simp
  have y: "log_function_name sequence_opts = ''a, b''"
    by code_simp
  have z: "snd (visitor no_overrides example_host (Some ''production'') sequence_opts
          (in_doSomething plain_label)) =
     Inr (ReplaceWith (ExpressionStatement True
       (SequenceExpression
          [Identifier ''a'', CallExpression (Identifier ''b'') [example_object]])))"
    by code_simp
  show ?thesis unfolding v l w x y z by simp
qed

text \<open>
  C1, amended. For a labeled statement whose alias is a built-in one, which is not
  stripped and is rewritten, when the parser reads the text of the log function in the
  template as the callee of one call on the object of the template, and no identifier of
  the callee is named like an entry of the table of the template: the statement is
  replaced by its body, in which every expression statement not yet marked has become a
  call of that callee on one object literal with the keys \<open>values\<close>, \<open>level\<close>, \<open>filename\<close>,
  \<open>filepath\<close>, \<open>content\<close>, \<open>line\<close>, \<open>parentPath\<close> in this order, holding the flag and
  the level of the alias, the file name, its resolution against the working directory,
  the line of the label, the parent path that the collector computed, and as content the
  subexpressions of a sequence expression, or else the expression alone.
\<close>

theorem replacement_encodes_metadata:
  assumes "node p = LabeledStatement l name body"
      and "aliases (fst (normalizeOpts os)) = Some al"
      and "alias_lookup al name = Some (NrserLog values level)"
      and "shouldStrip pl node_env name (collectMetadata h p al) (strip os) = Inr False"
      and "reads_as_call h (log_function_name os) callee"
      and "list_all (\<lambda>n. n \<notin> set slot_names) (identifier_names callee)"
      and "snd (visitor pl h node_env os p) = Inr a"
  shows "a =
     (case replace_logged
        (\<lambda>content.
           CallExpression callee
             [ObjectExpression
                [(Identifier ''values'', BooleanLiteral values),
                 (Identifier ''level'', StringLiteral level),
                 (Identifier ''filename'', StringLiteral (hub_filename p)),
                 (Identifier ''filepath'', StringLiteral (resolve h (cwd h) (hub_filename p))),
                 (Identifier ''content'',
                    ArrayExpression
                      (case content of SequenceExpression es \<Rightarrow> es | _ \<Rightarrow> [content])),
                 (Identifier ''line'', NumericLiteral (start_line l)),
                 (Identifier ''parentPath'',
                    ArrayExpression (map StringLiteral (parentPath (collectMetadata h p al))))]])
        body of
        BlockStatement ss \<Rightarrow> ReplaceWithMultiple ss
      | s \<Rightarrow> ReplaceWith s)"
proof -
  let ?md = "collectMetadata h p al"
  let ?f = "\<lambda>content.
           CallExpression callee
             [ObjectExpression
                [(Identifier ''values'', BooleanLiteral values),
                 (Identifier ''level'', StringLiteral level),
                 (Identifier ''filename'', StringLiteral (hub_filename p)),
                 (Identifier ''filepath'', StringLiteral (resolve h (cwd h) (hub_filename p))),
                 (Identifier ''content'',
                    ArrayExpression
                      (case content of SequenceExpression es \<Rightarrow> es | _ \<Rightarrow> [content])),
                 (Identifier ''line'', NumericLiteral (start_line l)),
                 (Identifier ''parentPath'',
                    ArrayExpression (map StringLiteral (parentPath ?md)))]]"
  let ?synth = "synthesize h (fst (normalizeOpts os)) al name ?md"
  have t: "alias_truthy (alias_lookup al name)"
    using assms(3) by simp
  have md: "filename ?md = hub_filename p" "filepath ?md = resolve h (cwd h) (hub_filename p)"
    "line ?md = start_line l"
    using assms(1) by (simp_all add: collectMetadata_def split: prod.splits)
  have parse: "parse_template h (nrserLog_source (log_function_name os)) =
                 Some [ExpressionStatement False (nrserLog_call callee)]"
    using assms(5) by (simp add: reads_as_call_def)
  have synth: "\<And>e r. ?synth e = Inr r \<Longrightarrow> r = ?f e"
  proof -
    fix e r assume "?synth e = Inr r"
    then have "nrserLog (parse_template h) (log_function_name os) e ?md values level = Inr r"
      using assms(3) by (simp add: synthesize_builtin)
    from nrserLog_result [where parse = "parse_template h" and logFn = "log_function_name os", OF parse assms(6) this] show "r = ?f e"
      by (simp add: md content_entries_def)
  qed
  have v: "snd (visitor pl h node_env os p) =
           (case traverse_stmt ?synth (side_effect_error p) body of
              Inl e \<Rightarrow> Inl e
            | Inr (BlockStatement ss) \<Rightarrow> Inr (ReplaceWithMultiple ss)
            | Inr s \<Rightarrow> Inr (ReplaceWith s))"
    using visitor_rewrites [OF assms(1,2) t assms(4)] .
  from assms(7) obtain s' where tr: "traverse_stmt ?synth (side_effect_error p) body = Inr s'"
    unfolding v by (auto split: sum.splits)
  have s': "s' = replace_logged ?f body"
    using traverse_replace_logged(1) [of ?synth ?f, OF synth tr] .
  have "a = (case s' of BlockStatement ss \<Rightarrow> ReplaceWithMultiple ss | s \<Rightarrow> ReplaceWith s)"
    using assms(7) unfolding v tr by (auto split: stmt.splits)
  then show ?thesis
    unfolding s' .
qed

theorem replacement_encodes_metadata_witness:
  "snd (visitor no_overrides example_host (Some ''production'') default_opts
          (in_doSomething plain_label)) =
     Inr (ReplaceWith (ExpressionStatement True (metalog_call ''debug'' [Identifier ''x''] 7))) \<and>
   snd (visitor no_overrides example_host (Some ''production'') default_opts
          (in_doSomething sequence_label)) =
     Inr (ReplaceWith (ExpressionStatement True
       (metalog_call ''trace'' [Identifier ''a'', Identifier ''b'', Identifier ''c''] 7)))"
proof -
  have pp: "parentPath (collectMetadata example_host (in_doSomething s) default_aliases) =
              [''doSomething'']" for s
    by (simp add: collectMetadata_def in_doSomething_def path_in_function_def keep_parent_def
        split: prod.splits)
  have n1: "node (in_doSomething plain_label) =
              LabeledStatement (Loc 7 2) ''debug'' (ExpressionStatement False (Identifier ''x''))"
    by (simp add: example_node plain_label_def)
  have n2: "node (in_doSomething sequence_label) =
              LabeledStatement (Loc 7 2) ''trace''
                (ExpressionStatement False
                   (SequenceExpression [Identifier ''a'', Identifier ''b'', Identifier ''c'']))"
    by (simp add: example_node sequence_label_def)
  have f: "hub_filename (in_doSomething s) = ''a.js''" for s
    by (simp add: in_doSomething_def path_in_function_def)
  have r: "resolve example_host (cwd example_host) ''a.js'' = ''/home/dev/app/a.js''"
    by (simp add: example_host_def)
  have "case snd (visitor no_overrides example_host (Some ''production'') default_opts
               (in_doSomething plain_label)) of Inl e \<Rightarrow> False | Inr a \<Rightarrow> True"
    by code_simp
  then obtain a1 where v1: "snd (visitor no_overrides example_host (Some ''production'')
          default_opts (in_doSomething plain_label)) = Inr a1"
    by (auto split: sum.splits)
  have "case snd (visitor no_overrides example_host (Some ''production'') default_opts
               (in_doSomething sequence_label)) of Inl e \<Rightarrow> False | Inr a \<Rightarrow> True"
    by code_simp
  then obtain a2 where v2: "snd (visitor no_overrides example_host (Some ''production'')
          default_opts (in_doSomething sequence_label)) = Inr a2"
    by (auto split: sum.splits)
  have "a1 = ReplaceWith (ExpressionStatement True (metalog_call ''debug'' [Identifier ''x''] 7))"
    using replacement_encodes_metadata [OF n1 example_aliases debug_default example_not_stripped
        example_reads example_names v1]
    by (simp add: pp f r metalog_call_def)
  moreover
  have "a2 = ReplaceWith (ExpressionStatement True
          (metalog_call ''trace'' [Identifier ''a'', Identifier ''b'', Identifier ''c''] 7))"
    using replacement_encodes_metadata [OF n2 example_aliases trace_default example_not_stripped
        example_reads example_names v2]
    by (simp add: pp f r metalog_call_def)
  ultimately show ?thesis using v1 v2 by simp
qed

text \<open>
  C7. When the visitor replaces a labeled statement, a block body of N statements takes
  the place of the statement in the enclosing list as N statements, each the rewriting of
  the statement of the body at the same position, and any other body takes its place as
  its one rewritten statement; the labeled statement itself is none of the statements put
  in.
\<close>

theorem body_replaces_label:
  assumes "node p = LabeledStatement l name body"
      and "aliases (fst (normalizeOpts os)) = Some al"
      and "snd (visitor pl h node_env os p) = Inr a"
      and "a \<noteq> Unchanged" and "a \<noteq> Remove"
  shows "(\<forall>ss. body = BlockStatement ss \<longrightarrow>
            (\<exists>ss'. a = ReplaceWithMultiple ss' \<and>
                   list_all2 (\<lambda>s s'. traverse_stmt
                       (synthesize h (fst (normalizeOpts os)) al name (collectMetadata h p al))
                       (side_effect_error p) s = Inr s') ss ss' \<and>
                   node p \<notin> set ss' \<and>
                   apply_action a (length before) (before @ node p # after) =
                     before @ ss' @ after)) \<and>
         ((\<forall>ss. body \<noteq> BlockStatement ss) \<longrightarrow>
            (\<exists>s'. a = ReplaceWith s' \<and>
                  traverse_stmt
                    (synthesize h (fst (normalizeOpts os)) al name (collectMetadata h p al))
                    (side_effect_error p) body = Inr s' \<and>
                  s' \<noteq> node p \<and>
                  apply_action a (length before) (before @ node p # after) =
                    before @ [s'] @ after))"
proof -
  let ?tr = "traverse_stmt
               (synthesize h (fst (normalizeOpts os)) al name (collectMetadata h p al))
               (side_effect_error p)"
  from assms obtain s' where tr: "?tr body = Inr s'"
    and a: "a = (case s' of BlockStatement ss \<Rightarrow> ReplaceWithMultiple ss | _ \<Rightarrow> ReplaceWith s')"
    by (auto simp add: visitor_def Let_def split: if_splits sum.splits bool.splits stmt.splits)
  have cnt: "stmt_count s' = stmt_count body"
    using tr by (rule traverse_stmt_count(1))
  show ?thesis
  proof (intro conjI allI impI)
    fix ss assume b: "body = BlockStatement ss"
    from tr b obtain ss' where s': "s' = BlockStatement ss'"
      and trs: "traverse_stmts
                  (synthesize h (fst (normalizeOpts os)) al name (collectMetadata h p al))
                  (side_effect_error p) ss = Inr ss'"
      using traverse_block by blast
    have "node p \<notin> set ss'"
    proof
      assume "node p \<in> set ss'"
      then have "stmt_count (node p) \<le> sum_list (map stmt_count ss')"
        by (rule stmt_count_member)
      with cnt s' b assms(1) show False by simp
    qed
    with a s' trs
    show "\<exists>ss'. a = ReplaceWithMultiple ss' \<and> list_all2 (\<lambda>s s'. ?tr s = Inr s') ss ss' \<and>
            node p \<notin> set ss' \<and>
            apply_action a (length before) (before @ node p # after) = before @ ss' @ after"
      by (auto simp add: traverse_stmts_all2)
  next
    assume nb: "\<forall>ss. body \<noteq> BlockStatement ss"
    have "\<And>ss'. s' \<noteq> BlockStatement ss'"
      using traverse_not_block [OF tr nb] .
    then have a': "a = ReplaceWith s'"
      using a by (cases s') auto
    have "s' \<noteq> node p"
      using cnt assms(1) by auto
    with a' tr
    show "\<exists>s'. a = ReplaceWith s' \<and> ?tr body = Inr s' \<and> s' \<noteq> node p \<and>
            apply_action a (length before) (before @ node p # after) = before @ [s'] @ after"
      by auto
  qed
qed

theorem body_replaces_label_witness:
  "snd (visitor no_overrides example_host (Some ''production'') default_opts
          (path_in_function ''a.js'' [AProgram] (Some ''doSomething'') 6
             [block_label, second_label] 0)) =
     Inr (ReplaceWithMultiple
            [ExpressionStatement True (metalog_call ''info'' [Identifier ''a''] 7),
             ExpressionStatement True (metalog_call ''info'' [Identifier ''b''] 7)]) \<and>
   apply_action
     (ReplaceWithMultiple
        [ExpressionStatement True (metalog_call ''info'' [Identifier ''a''] 7),
         ExpressionStatement True (metalog_call ''info'' [Identifier ''b''] 7)])
     0 [block_label, second_label] =
     [ExpressionStatement True (metalog_call ''info'' [Identifier ''a''] 7),
      ExpressionStatement True (metalog_call ''info'' [Identifier ''b''] 7),
      second_label] \<and>
   snd (visitor no_overrides example_host (Some ''production'') default_opts
          (path_in_function ''a.js'' [AProgram] (Some ''doSomething'') 6
             [second_label, plain_label] 1)) =
     Inr (ReplaceWith (ExpressionStatement True (metalog_call ''debug'' [Identifier ''x''] 7))) \<and>
   apply_action
     (ReplaceWith (ExpressionStatement True (metalog_call ''debug'' [Identifier ''x''] 7)))
     1 [second_label, plain_label] =
     [second_label, ExpressionStatement True (metalog_call ''debug'' [Identifier ''x''] 7)]"
proof -
  let ?p = "path_in_function ''a.js'' [AProgram] (Some ''doSomething'') 6
              [block_label, second_label] 0"
  let ?q = "path_in_function ''a.js'' [AProgram] (Some ''doSomething'') 6
              [second_label, plain_label] 1"
  let ?a = "ReplaceWithMultiple
              [ExpressionStatement True (metalog_call ''info'' [Identifier ''a''] 7),
               ExpressionStatement True (metalog_call ''info'' [Identifier ''b''] 7)]"
  let ?b = "ReplaceWith (ExpressionStatement True (metalog_call ''debug'' [Identifier ''x''] 7))"
  have np: "node ?p = LabeledStatement (Loc 7 2) ''info''
              (BlockStatement [ExpressionStatement False (Identifier ''a''),
                               ExpressionStatement False (Identifier ''b'')])"
    by (simp add: path_in_function_def block_label_def)
  have nq: "node ?q = LabeledStatement (Loc 7 2) ''debug'' (ExpressionStatement False (Identifier ''x''))"
    by (simp add: path_in_function_def plain_label_def)
  have vp: "snd (visitor no_overrides example_host (Some ''production'') default_opts ?p) = Inr ?a"
    by code_simp
  have vq: "snd (visitor no_overrides example_host (Some ''production'') default_opts ?q) = Inr ?b"
    by code_simp
  have "apply_action ?a (length ([]::stmt list)) ([] @ node ?p # [second_label]) =
          [] @ [ExpressionStatement True (metalog_call ''info'' [Identifier ''a''] 7),
                ExpressionStatement True (metalog_call ''info'' [Identifier ''b''] 7)] @ [second_label]"
    using body_replaces_label [OF np example_aliases vp, of "[]" "[second_label]"] by auto
  then have ap: "apply_action ?a 0 [block_label, second_label] =
          [ExpressionStatement True (metalog_call ''info'' [Identifier ''a''] 7),
           ExpressionStatement True (metalog_call ''info'' [Identifier ''b''] 7), second_label]"
    by (simp add: np block_label_def)
  have "apply_action ?b (length [second_label]) ([second_label] @ node ?q # []) =
          [second_label] @ [ExpressionStatement True (metalog_call ''debug'' [Identifier ''x''] 7)] @ []"
    using body_replaces_label [OF nq example_aliases vq, of "[second_label]" "[]"] by auto
  then have aq: "apply_action ?b 1 [second_label, plain_label] =
          [second_label, ExpressionStatement True (metalog_call ''debug'' [Identifier ''x''] 7)]"
    by (simp add: nq plain_label_def)
  from vp ap vq aq show ?thesis by simp
qed




end
